theory Spec2Isabelle
  imports Main
begin

section \<open>JavaScript values and \<^verbatim>\<open>JSON.stringify\<close>\<close>

text \<open>
  Both entry points (\<^verbatim>\<open>mcpServer.js\<close> and \<^verbatim>\<open>mcpServer_publicAPI.js\<close>) move parsed JSON
  around: the request body, the tool arguments, the data returned by \<^verbatim>\<open>graphql-request\<close>
  and the cached schema. A value is one of the JSON shapes, or \<^verbatim>\<open>undefined\<close> (a missing
  property, an omitted argument). Numbers are the integral ones; an object is the list of its
  properties in the order JavaScript enumerates them, with distinct keys.
\<close>

datatype jsval =
    Undefined
  | Null
  | Bool bool
  | Num int
  | Str string
  | Arr "jsval list"
  | Obj "(string \<times> jsval) list"

text \<open>\<^verbatim>\<open>!v\<close> is true exactly for the falsy values.\<close>

fun truthy :: "jsval \<Rightarrow> bool" where
  "truthy Undefined = False"
| "truthy Null = False"
| "truthy (Bool b) = b"
| "truthy (Num n) = (n \<noteq> 0)"
| "truthy (Str s) = (s \<noteq> [])"
| "truthy (Arr xs) = True"
| "truthy (Obj kvs) = True"

text \<open>
  Property access \<^verbatim>\<open>v.k\<close>. The code only reads the keys \<^verbatim>\<open>method\<close>, \<^verbatim>\<open>params\<close>,
  \<^verbatim>\<open>name\<close>, \<^verbatim>\<open>arguments\<close>, \<^verbatim>\<open>query\<close>, \<^verbatim>\<open>variables\<close> and \<^verbatim>\<open>id\<close>, which no string,
  number, boolean or array carries, and it reads them from truthy values only.
\<close>

fun get_prop :: "jsval \<Rightarrow> string \<Rightarrow> jsval" where
  "get_prop (Obj kvs) k = (case map_of kvs k of None \<Rightarrow> Undefined | Some v \<Rightarrow> v)"
| "get_prop v k = Undefined"

subsection \<open>Decimal rendering of a number\<close>

definition digit_char :: "nat \<Rightarrow> char" where
  "digit_char d = ''0123456789'' ! d"

fun nat_toString :: "nat \<Rightarrow> string" where
  "nat_toString n =
     (if n < 10 then [digit_char n] else nat_toString (n div 10) @ [digit_char (n mod 10)])"

declare nat_toString.simps [simp del]

definition int_toString :: "int \<Rightarrow> string" where
  "int_toString i = (if i < 0 then CHR ''-'' # nat_toString (nat (- i)) else nat_toString (nat i))"

text \<open>Reading a decimal numeral back, used to show that the rendering loses nothing.\<close>

definition digit_val :: "char \<Rightarrow> nat" where
  "digit_val c = of_char c - 48"

definition nat_of_digits :: "string \<Rightarrow> nat" where
  "nat_of_digits s = foldl (\<lambda>a c. 10 * a + digit_val c) 0 s"

subsection \<open>Serialisation\<close>

definition hex_digit :: "nat \<Rightarrow> char" where
  "hex_digit n = ''0123456789abcdef'' ! n"

definition escape_char :: "char \<Rightarrow> string" where
  "escape_char c =
     (if c = CHR 0x22 then [CHR 0x5C, CHR 0x22]
      else if c = CHR 0x5C then [CHR 0x5C, CHR 0x5C]
      else if c = CHR 0x08 then [CHR 0x5C, CHR ''b'']
      else if c = CHR 0x0C then [CHR 0x5C, CHR ''f'']
      else if c = CHR 0x0A then [CHR 0x5C, CHR ''n'']
      else if c = CHR 0x0D then [CHR 0x5C, CHR ''r'']
      else if c = CHR 0x09 then [CHR 0x5C, CHR ''t'']
      else if (of_char c :: nat) < 32
        then [CHR 0x5C, CHR ''u'', CHR ''0'', CHR ''0'',
              hex_digit (of_char c div 16), hex_digit (of_char c mod 16)]
      else [c])"

definition quote :: "string \<Rightarrow> string" where
  "quote s = CHR 0x22 # concat (map escape_char s) @ [CHR 0x22]"

fun join_with :: "string \<Rightarrow> string list \<Rightarrow> string" where
  "join_with sep [] = []"
| "join_with sep [x] = x"
| "join_with sep (x # y # ys) = x @ sep @ join_with sep (y # ys)"

text \<open>
  \<^verbatim>\<open>JSON.stringify(v)\<close>: \<^verbatim>\<open>undefined\<close> has no serialisation (the call returns
  \<^verbatim>\<open>undefined\<close>, here \<open>None\<close>); inside an array it is written \<^verbatim>\<open>null\<close>; a property
  whose value is \<^verbatim>\<open>undefined\<close> is left out of its object.
\<close>

fun JSON_stringify :: "jsval \<Rightarrow> string option" where
  "JSON_stringify Undefined = None"
| "JSON_stringify Null = Some ''null''"
| "JSON_stringify (Bool b) = Some (if b then ''true'' else ''false'')"
| "JSON_stringify (Num n) = Some (int_toString n)"
| "JSON_stringify (Str s) = Some (quote s)"
| "JSON_stringify (Arr xs) =
     Some (''['' @ join_with '',''
        (map (\<lambda>x. case JSON_stringify x of None \<Rightarrow> ''null'' | Some t \<Rightarrow> t) xs) @ '']'')"
| "JSON_stringify (Obj kvs) =
     Some (''{'' @ join_with '',''
        (concat (map (\<lambda>(k, v). case JSON_stringify v of None \<Rightarrow> []
                                  | Some t \<Rightarrow> [quote k @ '':'' @ t]) kvs)) @ ''}'')"

section \<open>Constants of the module\<close>

definition GRAPHQL_ENDPOINT :: string where
  "GRAPHQL_ENDPOINT = ''https://countries.trevorblades.com/''"

text \<open>
  The \<^verbatim>\<open>gql\<close> template literal has no interpolation, so \<^verbatim>\<open>INTROSPECTION_QUERY\<close> is the
  text between the backticks: a line break, then the lines below, each ended by a line break.
\<close>

definition INTROSPECTION_QUERY_lines :: "string list" where
  "INTROSPECTION_QUERY_lines =
   [''  query IntrospectionQuery {'',
    ''    __schema {'',
    ''      queryType { name }'',
    ''      mutationType { name }'',
    ''      subscriptionType { name }'',
    ''      types {'',
    ''        ...FullType'',
    ''      }'',
    ''      directives {'',
    ''        name'',
    ''        description'',
    ''        locations'',
    ''        args {'',
    ''          ...InputValue'',
    ''        }'',
    ''      }'',
    ''    }'',
    ''  }'',
    ''  fragment FullType on __Type {'',
    ''    kind'',
    ''    name'',
    ''    description'',
    ''    fields(includeDeprecated: true) {'',
    ''      name'',
    ''      description'',
    ''      args {'',
    ''        ...InputValue'',
    ''      }'',
    ''      type {'',
    ''        ...TypeRef'',
    ''      }'',
    ''      isDeprecated'',
    ''      deprecationReason'',
    ''    }'',
    ''    inputFields {'',
    ''      ...InputValue'',
    ''    }'',
    ''    interfaces {'',
    ''      ...TypeRef'',
    ''    }'',
    ''    enumValues(includeDeprecated: true) {'',
    ''      name'',
    ''      description'',
    ''      isDeprecated'',
    ''      deprecationReason'',
    ''    }'',
    ''    possibleTypes {'',
    ''      ...TypeRef'',
    ''    }'',
    ''  }'',
    ''  fragment InputValue on __InputValue {'',
    ''    name'',
    ''    description'',
    ''    type { ...TypeRef }'',
    ''    defaultValue'',
    ''  }'',
    ''  fragment TypeRef on __Type {'',
    ''    kind'',
    ''    name'',
    ''    ofType {'',
    ''      kind'',
    ''      name'',
    ''      ofType {'',
    ''        kind'',
    ''        name'',
    ''        ofType {'',
    ''          kind'',
    ''          name'',
    ''          ofType {'',
    ''            kind'',
    ''            name'',
    ''            ofType {'',
    ''              kind'',
    ''              name'',
    ''              ofType {'',
    ''                kind'',
    ''                name'',
    ''              }'',
    ''            }'',
    ''          }'',
    ''        }'',
    ''      }'',
    ''    }'',
    ''  }'']"

definition INTROSPECTION_QUERY :: string where
  "INTROSPECTION_QUERY =
     CHR 0x0A # concat (map (\<lambda>l. l @ [CHR 0x0A]) INTROSPECTION_QUERY_lines)"

subsection \<open>Reading the nesting of a GraphQL document\<close>

text \<open>
  To measure how deep a fragment nests a field, the document is cut into tokens (names and
  single punctuation characters; blanks and line breaks separate), the selection set of the
  named fragment is taken up to its closing brace, and the braces opened right after the
  field's name are counted while they are open.
\<close>

definition name_code :: "nat \<Rightarrow> bool" where
  "name_code n =
     ((48 \<le> n \<and> n \<le> 57) \<or> (65 \<le> n \<and> n \<le> 90) \<or> (97 \<le> n \<and> n \<le> 122) \<or> n = 95)"

definition is_name_char :: "char \<Rightarrow> bool" where
  "is_name_char c = name_code (of_char c)"

definition is_blank :: "char \<Rightarrow> bool" where
  "is_blank c = (c = CHR '' '' \<or> c = CHR 0x0A \<or> c = CHR 0x09 \<or> c = CHR 0x0D \<or> c = CHR '','')"

fun tokens_from :: "string \<Rightarrow> string \<Rightarrow> string list" where
  "tokens_from acc [] = (if acc = [] then [] else [acc])"
| "tokens_from acc (c # cs) =
     (if is_name_char c then tokens_from (acc @ [c]) cs
      else (if acc = [] then [] else [acc])
         @ (if is_blank c then [] else [[c]])
         @ tokens_from [] cs)"

definition tokens :: "string \<Rightarrow> string list" where
  "tokens doc = tokens_from [] doc"

fun after_fragment :: "string \<Rightarrow> string list \<Rightarrow> string list" where
  "after_fragment name (a # b # ts) =
     (if a = ''fragment'' \<and> b = name then ts else after_fragment name (b # ts))"
| "after_fragment name ts = []"

fun take_block :: "nat \<Rightarrow> string list \<Rightarrow> string list" where
  "take_block d [] = []"
| "take_block d (t # ts) =
     (if t = ''{'' then t # take_block (Suc d) ts
      else if t = ''}'' then (if d \<le> 1 then [t] else t # take_block (d - 1) ts)
      else t # take_block d ts)"

definition fragment_tokens :: "string \<Rightarrow> string \<Rightarrow> string list" where
  "fragment_tokens name doc = take_block 0 (after_fragment name (tokens doc))"

text \<open>
  \<open>nesting field opn prev best ts\<close> scans the tokens \<open>ts\<close>: \<open>opn\<close> holds one flag per
  brace that is open, true when the brace came right after \<open>field\<close> (\<open>prev\<close> is the
  token before); \<open>best\<close> is the largest number of true flags seen open at once.
\<close>

fun nesting :: "string \<Rightarrow> bool list \<Rightarrow> string \<Rightarrow> nat \<Rightarrow> string list \<Rightarrow> nat" where
  "nesting field opn prev best [] = best"
| "nesting field opn prev best (t # ts) =
     (if t = ''{''
      then nesting field ((prev = field) # opn) t
             (max best (length (filter (\<lambda>b. b) ((prev = field) # opn)))) ts
      else if t = ''}'' then nesting field (tl opn) t best ts
      else nesting field opn t best ts)"

definition ofType_levels :: "string \<Rightarrow> nat" where
  "ofType_levels doc = nesting ''ofType'' [] [] 0 (fragment_tokens ''TypeRef'' doc)"

section \<open>The state of the process and the upstream client\<close>

text \<open>
  The module keeps three variables: \<^verbatim>\<open>cachedSchema\<close> (starts as \<^verbatim>\<open>null\<close>), the
  \<^verbatim>\<open>sessions\<close> map and \<^verbatim>\<open>sessionCounter\<close>. The record adds \<open>requests\<close>, the list of
  calls made to \<^verbatim>\<open>request\<close> of \<^verbatim>\<open>graphql-request\<close> so far, oldest first, so that
  what a handler sends upstream can be stated. Writes to the console are left out.
\<close>

record session =
  session_id :: string
  created :: nat

record gql_call =
  call_url :: string
  call_document :: jsval
  call_variables :: jsval

record world =
  cachedSchema :: jsval
  sessions :: "string \<rightharpoonup> session"
  sessionCounter :: nat
  requests :: "gql_call list"

definition initial_world :: world where
  "initial_world =
     \<lparr>cachedSchema = Null, sessions = Map.empty, sessionCounter = 0, requests = []\<rparr>"

text \<open>
  An error thrown by the client is caught by every caller, which reads its \<^verbatim>\<open>message\<close>
  only. The upstream service is the environment: for one call it is a function from the
  url, the document and the variables to the thrown error or the returned data. A handler
  runs from its call to its return with no other request in between.
\<close>

datatype js_error = Error (message: jsval)

type_synonym upstream = "string \<Rightarrow> jsval \<Rightarrow> jsval \<Rightarrow> js_error + jsval"

definition request ::
  "upstream \<Rightarrow> string \<Rightarrow> jsval \<Rightarrow> jsval \<Rightarrow> world \<Rightarrow> (js_error + jsval) \<times> world" where
  "request up url document variables w =
     (up url document variables,
      w\<lparr>requests := requests w
           @ [\<lparr>call_url = url, call_document = document, call_variables = variables\<rparr>]\<rparr>)"

section \<open>Session management\<close>

text \<open>
  \<^verbatim>\<open>++sessionCounter\<close> adds one to a double: exact below \<open>2 ^ 53\<close>; at \<open>2 ^ 53\<close> the
  sum \<open>2 ^ 53 + 1\<close> is not a double and rounds (to even) back to \<open>2 ^ 53\<close>. Every value
  the counter takes is therefore a natural number of at most \<open>2 ^ 53\<close>, which the template
  literal renders in plain decimal.
\<close>

definition increment :: "nat \<Rightarrow> nat" where
  "increment c = (if c < 2 ^ 53 then c + 1 else c)"

definition generateSessionId :: "world \<Rightarrow> string \<times> world" where
  "generateSessionId w =
     (let c = increment (sessionCounter w)
      in (''session-'' @ nat_toString c, w\<lparr>sessionCounter := c\<rparr>))"

definition getSession :: "string \<Rightarrow> world \<Rightarrow> session option" where
  "getSession sessionId w = sessions w sessionId"

text \<open>\<open>now\<close> is the reading of \<^verbatim>\<open>Date.now()\<close>.\<close>

definition createSession :: "string \<Rightarrow> nat \<Rightarrow> world \<Rightarrow> session \<times> world" where
  "createSession sessionId now w =
     (let session = \<lparr>session_id = sessionId, created = now\<rparr>
      in (session, w\<lparr>sessions := (sessions w)(sessionId \<mapsto> session)\<rparr>))"

definition deleteSession :: "string \<Rightarrow> world \<Rightarrow> world" where
  "deleteSession sessionId w = w\<lparr>sessions := (sessions w)(sessionId := None)\<rparr>"

text \<open>
  A history of the session manager: any sequence of its four operations. \<open>NewSession\<close>
  is the use the transport is given the manager for: draw an identifier from
  \<^verbatim>\<open>sessionIdGenerator\<close>, then \<^verbatim>\<open>createSession\<close> with it. \<open>generated ops w\<close> lists the
  identifiers drawn while \<open>ops\<close> runs from \<open>w\<close>, in the order drawn.
\<close>

datatype session_op =
    GenerateId
  | CreateSession string nat
  | DeleteSession string
  | GetSession string
  | NewSession nat

fun apply_op :: "session_op \<Rightarrow> world \<Rightarrow> string list \<times> world" where
  "apply_op GenerateId w = (let (i, w1) = generateSessionId w in ([i], w1))"
| "apply_op (CreateSession sessionId now) w = ([], snd (createSession sessionId now w))"
| "apply_op (DeleteSession sessionId) w = ([], deleteSession sessionId w)"
| "apply_op (GetSession sessionId) w = ([], w)"
| "apply_op (NewSession now) w =
     (let (i, w1) = generateSessionId w in ([i], snd (createSession i now w1)))"

fun run_ops :: "session_op list \<Rightarrow> world \<Rightarrow> string list \<times> world" where
  "run_ops [] w = ([], w)"
| "run_ops (op # ops) w =
     (let (is1, w1) = apply_op op w; (is2, w2) = run_ops ops w1 in (is1 @ is2, w2))"

definition generated :: "session_op list \<Rightarrow> world \<Rightarrow> string list" where
  "generated ops w = fst (run_ops ops w)"

section \<open>Tool handlers\<close>

record content_block =
  block_type :: string
  block_text :: "string option"

record tool_result =
  content :: "content_block list"

text \<open>The handler registered for \<^verbatim>\<open>introspect-schema\<close>, the same in both files.\<close>

definition introspect_schema :: "upstream \<Rightarrow> world \<Rightarrow> tool_result \<times> world" where
  "introspect_schema up w =
     (case request up GRAPHQL_ENDPOINT (Str INTROSPECTION_QUERY) Undefined w of
        (Inr schema, w1) \<Rightarrow>
          (\<lparr>content = [\<lparr>block_type = ''text'', block_text = JSON_stringify schema\<rparr>]\<rparr>,
           w1\<lparr>cachedSchema := schema\<rparr>)
      | (Inl err, w1) \<Rightarrow>
          (\<lparr>content = [\<lparr>block_type = ''text'',
              block_text = JSON_stringify (Obj [(''error'', Str ''Failed to introspect schema''),
                                               (''details'', message err)])\<rparr>]\<rparr>,
           w1))"

text \<open>
  The handler registered for \<^verbatim>\<open>query-graphql\<close>. The SDK hands it the validated
  arguments: \<^verbatim>\<open>query\<close> a string, \<^verbatim>\<open>variables\<close> an object or \<^verbatim>\<open>undefined\<close>.
  \<^verbatim>\<open>mcpServer.js\<close> destructures them in the parameter list.
\<close>

record query_args =
  query :: string
  variables :: jsval

definition query_graphql :: "upstream \<Rightarrow> query_args \<Rightarrow> world \<Rightarrow> tool_result \<times> world" where
  "query_graphql up args w =
     (if \<not> truthy (cachedSchema w)
      then (let msg = ''Schema not available. Please run introspect-schema first.''
            in (\<lparr>content = [\<lparr>block_type = ''text'',
                    block_text = JSON_stringify (Obj [(''error'', Str msg)])\<rparr>]\<rparr>, w))
      else (case request up GRAPHQL_ENDPOINT (Str (query args)) (variables args) w of
              (Inr data, w1) \<Rightarrow>
                (\<lparr>content = [\<lparr>block_type = ''text'',
                    block_text = JSON_stringify (Obj [(''data'', data)])\<rparr>]\<rparr>, w1)
            | (Inl err, w1) \<Rightarrow>
                (\<lparr>content = [\<lparr>block_type = ''text'',
                    block_text = JSON_stringify
                      (Obj [(''error'', Str ''Failed to execute GraphQL query''),
                            (''details'', message err)])\<rparr>]\<rparr>, w1)))"

text \<open>
  \<^verbatim>\<open>mcpServer_publicAPI.js\<close> registers the same handler with the parameters
  \<^verbatim>\<open>(args, context)\<close>; it logs both and reads \<^verbatim>\<open>args.query\<close> and \<^verbatim>\<open>args.variables\<close>.
\<close>

definition query_graphql_publicAPI ::
  "upstream \<Rightarrow> query_args \<Rightarrow> jsval \<Rightarrow> world \<Rightarrow> tool_result \<times> world" where
  "query_graphql_publicAPI up args context w =
     (let query = query args; variables = variables args
      in if \<not> truthy (cachedSchema w)
         then (let msg = ''Schema not available. Please run introspect-schema first.''
               in (\<lparr>content = [\<lparr>block_type = ''text'',
                       block_text = JSON_stringify (Obj [(''error'', Str msg)])\<rparr>]\<rparr>, w))
         else (case request up GRAPHQL_ENDPOINT (Str query) variables w of
                 (Inr data, w1) \<Rightarrow>
                   (\<lparr>content = [\<lparr>block_type = ''text'',
                       block_text = JSON_stringify (Obj [(''data'', data)])\<rparr>]\<rparr>, w1)
               | (Inl err, w1) \<Rightarrow>
                   (\<lparr>content = [\<lparr>block_type = ''text'',
                       block_text = JSON_stringify
                         (Obj [(''error'', Str ''Failed to execute GraphQL query''),
                               (''details'', message err)])\<rparr>]\<rparr>, w1)))"

section \<open>The \<^verbatim>\<open>POST /mcp\<close> route of \<^verbatim>\<open>mcpServer_publicAPI.js\<close>\<close>

text \<open>
  Before it builds a transport, the route answers a \<^verbatim>\<open>tools/call\<close> of
  \<^verbatim>\<open>query-graphql\<close> by hand. \<open>body\<close> is \<^verbatim>\<open>req.body\<close> as \<^verbatim>\<open>express.json()\<close> left it.
  Any other request goes on to the SDK transport (\<open>PassedToTransport\<close>), which is not
  part of the repository. In \<^verbatim>\<open>mcpServer.js\<close> every request goes to the transport.
\<close>

record jsonrpc_response =
  result :: tool_result
  jsonrpc :: string
  response_id :: jsval

datatype post_outcome = Responded jsonrpc_response | PassedToTransport

definition is_manual_query :: "jsval \<Rightarrow> bool" where
  "is_manual_query body =
     (truthy body \<and> get_prop body ''method'' = Str ''tools/call''
      \<and> truthy (get_prop body ''params'')
      \<and> get_prop (get_prop body ''params'') ''name'' = Str ''query-graphql'')"

definition post_mcp_publicAPI :: "upstream \<Rightarrow> jsval \<Rightarrow> world \<Rightarrow> post_outcome \<times> world" where
  "post_mcp_publicAPI up body w =
     (if is_manual_query body
      then (let arguments = (if truthy (get_prop (get_prop body ''params'') ''arguments'')
                             then get_prop (get_prop body ''params'') ''arguments''
                             else Obj []);
                query = get_prop arguments ''query'';
                variables = get_prop arguments ''variables''
            in case request up GRAPHQL_ENDPOINT query variables w of
                 (Inr data, w1) \<Rightarrow>
                   (Responded
                      \<lparr>result = \<lparr>content = [\<lparr>block_type = ''text'',
                                               block_text = JSON_stringify data\<rparr>]\<rparr>,
                       jsonrpc = ''2.0'', response_id = get_prop body ''id''\<rparr>, w1)
               | (Inl err, w1) \<Rightarrow>
                   (Responded
                      \<lparr>result = \<lparr>content = [\<lparr>block_type = ''text'',
                          block_text = JSON_stringify
                            (Obj [(''error'', Str ''Failed to execute GraphQL query''),
                                  (''details'', message err)])\<rparr>]\<rparr>,
                       jsonrpc = ''2.0'', response_id = get_prop body ''id''\<rparr>, w1))
      else (PassedToTransport, w))"

section \<open>The envelope the specification describes\<close>

text \<open>
  This definition follows the words of the specification, not the code: a tool result is a
  success with a payload or a failure with a message and details, and its envelope is one
  text block holding the serialised \<^verbatim>\<open>{ data: payload }\<close>, respectively
  \<^verbatim>\<open>{ error: message, details: details }\<close>. The handlers are compared with it below.
\<close>

datatype tool_outcome = Success jsval | Failure string jsval

fun spec_envelope :: "tool_outcome \<Rightarrow> content_block list" where
  "spec_envelope (Success payload) =
     [\<lparr>block_type = ''text'', block_text = JSON_stringify (Obj [(''data'', payload)])\<rparr>]"
| "spec_envelope (Failure msg details) =
     [\<lparr>block_type = ''text'',
       block_text = JSON_stringify (Obj [(''error'', Str msg), (''details'', details)])\<rparr>]"

section \<open>Sample requests\<close>

text \<open>
  The request of the README: a \<^verbatim>\<open>tools/call\<close> of \<^verbatim>\<open>query-graphql\<close> asking for the
  countries and their capitals, with no \<^verbatim>\<open>variables\<close>.
\<close>

definition countries_request :: jsval where
  "countries_request =
     Obj [(''jsonrpc'', Str ''2.0''), (''id'', Num 2), (''method'', Str ''tools/call''),
          (''params'', Obj [(''name'', Str ''query-graphql''),
             (''arguments'',
                Obj [(''query'', Str ''query { countries { name capital } }'')])])]"

definition countries_args :: query_args where
  "countries_args = \<lparr>query = ''query { countries { name capital } }'', variables = Undefined\<rparr>"

text \<open>An upstream that answers every call with an empty list of countries.\<close>

definition no_countries :: upstream where
  "no_countries url doc vars = Inr (Obj [(''countries'', Arr [])])"

text \<open>An upstream that answers every call with a schema.\<close>

definition tiny_schema :: jsval where
  "tiny_schema = Obj [(''__schema'', Obj [(''types'', Arr [])])]"

definition schema_upstream :: upstream where
  "schema_upstream url doc vars = Inr tiny_schema"

text \<open>An upstream that cannot be reached.\<close>

definition unreachable :: upstream where
  "unreachable url doc vars = Inl (Error (Str ''fetch failed''))"

text \<open>
  A short history of the session manager: a session is opened, deleted, and two more
  identifiers are drawn.
\<close>

definition sample_history :: "session_op list" where
  "sample_history =
     [NewSession 1700000000000, DeleteSession ''session-1'', NewSession 1700000000500,
      GetSession ''session-1'', GenerateId]"

section \<open>Basic facts\<close>

lemma request_result [simp]: "fst (request up url d v w) = up url d v"
  by (simp add: request_def)

lemma request_world [simp]:
  "snd (request up url d v w) =
     w\<lparr>requests := requests w @ [\<lparr>call_url = url, call_document = d, call_variables = v\<rparr>]\<rparr>"
  by (simp add: request_def)

lemma query_graphql_publicAPI_eq:
  "query_graphql_publicAPI up args context w = query_graphql up args w"
  by (simp add: query_graphql_def query_graphql_publicAPI_def Let_def)

lemma manual_countries_request: "is_manual_query countries_request"
  by (simp add: is_manual_query_def countries_request_def)

lemma stringify_no_countries:
  \<open>JSON_stringify (Obj [(''countries'', Arr [])]) = Some ''{"countries":[]}''\<close>
  by code_simp

lemma stringify_not_available:
  \<open>JSON_stringify (Obj [(''error'',
       Str ''Schema not available. Please run introspect-schema first.'')])
   = Some ''{"error":"Schema not available. Please run introspect-schema first."}''\<close>
  by code_simp

section \<open>The readiness check of \<^verbatim>\<open>query-graphql\<close>\<close>

text \<open>
  The registered handler, in both files: while \<^verbatim>\<open>cachedSchema\<close> is falsy (it is
  \<^verbatim>\<open>null\<close> until an introspection succeeds) it answers with the fixed message and leaves
  the world, and so the list of upstream calls, as it was.
\<close>

lemma query_graphql_not_ready:
  assumes "\<not> truthy (cachedSchema w)"
  shows "query_graphql up args w =
           (\<lparr>content = [\<lparr>block_type = ''text'',
               block_text = JSON_stringify (Obj [(''error'',
                 Str ''Schema not available. Please run introspect-schema first.'')])\<rparr>]\<rparr>, w)"
  using assms by (simp add: query_graphql_def)

text \<open>
  C1. Claim: every \<^verbatim>\<open>query-graphql\<close> call made while the schema cache is empty fails with
  "Schema not available. Please run introspect-schema first." and makes no upstream call, in
  both entry points. The route of \<^verbatim>\<open>mcpServer_publicAPI.js\<close> does otherwise: in a fresh
  process (cache \<^verbatim>\<open>null\<close>) the README's request is answered by hand, one call goes
  upstream and the data comes back; the registered handler and its check never run.
\<close>

theorem manual_query_skips_readiness_check:
  \<open>cachedSchema initial_world = Null
   \<and> post_mcp_publicAPI no_countries countries_request initial_world =
      (Responded
         \<lparr>result = \<lparr>content = [\<lparr>block_type = ''text'',
                                  block_text = Some ''{"countries":[]}''\<rparr>]\<rparr>,
          jsonrpc = ''2.0'', response_id = Num 2\<rparr>,
       initial_world\<lparr>requests :=
         [\<lparr>call_url = GRAPHQL_ENDPOINT,
           call_document = Str ''query { countries { name capital } }'',
           call_variables = Undefined\<rparr>]\<rparr>)\<close>
proof -
  have args: "get_prop (get_prop countries_request ''params'') ''arguments''
                = Obj [(''query'', Str ''query { countries { name capital } }'')]"
    by (simp add: countries_request_def)
  have ident: "get_prop countries_request ''id'' = Num 2"
    by (simp add: countries_request_def)
  show ?thesis
    by (simp add: post_mcp_publicAPI_def manual_countries_request args ident request_def
        no_countries_def stringify_no_countries initial_world_def
        del: JSON_stringify.simps)
qed

section \<open>Introspection and the schema cache\<close>

text \<open>
  C4. Whenever the upstream call of \<^verbatim>\<open>introspect-schema\<close> fails, the handler returns the
  failure "Failed to introspect schema" with the error's message as details, and the schema
  cache is what it was before the call, whether it held a schema or not.
\<close>

theorem introspect_schema_failure_keeps_cache:
  assumes "up GRAPHQL_ENDPOINT (Str INTROSPECTION_QUERY) Undefined = Inl err"
  shows "fst (introspect_schema up w) =
           \<lparr>content = [\<lparr>block_type = ''text'',
              block_text = JSON_stringify (Obj [(''error'', Str ''Failed to introspect schema''),
                                               (''details'', message err)])\<rparr>]\<rparr>
         \<and> cachedSchema (snd (introspect_schema up w)) = cachedSchema w"
  using assms by (simp add: introspect_schema_def request_def)

theorem introspect_schema_failure_keeps_cache_witness:
  "unreachable GRAPHQL_ENDPOINT (Str INTROSPECTION_QUERY) Undefined
     = Inl (Error (Str ''fetch failed''))
   \<and> cachedSchema (snd (introspect_schema unreachable
        (snd (introspect_schema schema_upstream initial_world)))) = tiny_schema
   \<and> cachedSchema (snd (introspect_schema unreachable initial_world)) = Null"
proof -
  have failing: "unreachable GRAPHQL_ENDPOINT (Str INTROSPECTION_QUERY) Undefined
                   = Inl (Error (Str ''fetch failed''))"
    by (simp add: unreachable_def)
  have cached: "cachedSchema (snd (introspect_schema schema_upstream initial_world)) = tiny_schema"
    by (simp add: introspect_schema_def request_def schema_upstream_def)
  have empty: "cachedSchema initial_world = Null"
    by (simp add: initial_world_def)
  show ?thesis
    using failing cached empty
      introspect_schema_failure_keeps_cache
        [where up = unreachable and w = initial_world]
      introspect_schema_failure_keeps_cache
        [where up = unreachable
           and w = "snd (introspect_schema schema_upstream initial_world)"]
    by simp
qed

text \<open>
  C6. After every successful \<^verbatim>\<open>introspect-schema\<close> call the schema cache holds exactly
  the value the upstream client returned, whatever the cache held before; so a later
  successful call replaces the cached value by its own, with nothing of the old one kept.
\<close>

theorem introspect_schema_success_sets_cache:
  assumes "up GRAPHQL_ENDPOINT (Str INTROSPECTION_QUERY) Undefined = Inr schema"
    and "up' GRAPHQL_ENDPOINT (Str INTROSPECTION_QUERY) Undefined = Inr schema'"
  shows "cachedSchema (snd (introspect_schema up w)) = schema
         \<and> cachedSchema (snd (introspect_schema up' (snd (introspect_schema up w)))) = schema'"
  using assms by (simp add: introspect_schema_def request_def)

theorem introspect_schema_success_sets_cache_witness:
  "schema_upstream GRAPHQL_ENDPOINT (Str INTROSPECTION_QUERY) Undefined = Inr tiny_schema
   \<and> no_countries GRAPHQL_ENDPOINT (Str INTROSPECTION_QUERY) Undefined
       = Inr (Obj [(''countries'', Arr [])])
   \<and> cachedSchema (snd (introspect_schema schema_upstream initial_world)) = tiny_schema
   \<and> cachedSchema (snd (introspect_schema no_countries
        (snd (introspect_schema schema_upstream initial_world))))
       = Obj [(''countries'', Arr [])]"
proof -
  have first: "schema_upstream GRAPHQL_ENDPOINT (Str INTROSPECTION_QUERY) Undefined
                 = Inr tiny_schema"
    by (simp add: schema_upstream_def)
  have second: "no_countries GRAPHQL_ENDPOINT (Str INTROSPECTION_QUERY) Undefined
                  = Inr (Obj [(''countries'', Arr [])])"
    by (simp add: no_countries_def)
  show ?thesis
    using first second
      introspect_schema_success_sets_cache
        [where up = schema_upstream and up' = no_countries and w = initial_world]
    by simp
qed

section \<open>What \<^verbatim>\<open>query-graphql\<close> sends and what it leaves alone\<close>

text \<open>
  C5. With the schema cache populated (truthy, which is what the handler tests), the
  registered \<^verbatim>\<open>query-graphql\<close> handler of either file makes exactly one upstream call,
  to the fixed endpoint, with the query string and the variables it was given, unchanged.
  The hand-written branch of \<^verbatim>\<open>mcpServer_publicAPI.js\<close> makes exactly one call as well,
  to the same endpoint, with the \<^verbatim>\<open>query\<close> and \<^verbatim>\<open>variables\<close> properties of
  \<^verbatim>\<open>params.arguments\<close> as they are.
\<close>

theorem query_graphql_forwards_verbatim:
  assumes "truthy (cachedSchema w)"
    and "is_manual_query body"
    and "get_prop (get_prop body ''params'') ''arguments'' = Obj kvs"
  shows "requests (snd (query_graphql up args w)) =
           requests w @ [\<lparr>call_url = GRAPHQL_ENDPOINT, call_document = Str (query args),
                           call_variables = variables args\<rparr>]
         \<and> requests (snd (query_graphql_publicAPI up args context w)) =
           requests w @ [\<lparr>call_url = GRAPHQL_ENDPOINT, call_document = Str (query args),
                           call_variables = variables args\<rparr>]
         \<and> requests (snd (post_mcp_publicAPI up body w)) =
           requests w @ [\<lparr>call_url = GRAPHQL_ENDPOINT,
                           call_document = get_prop (Obj kvs) ''query'',
                           call_variables = get_prop (Obj kvs) ''variables''\<rparr>]"
proof -
  have handler: "requests (snd (query_graphql up args w)) =
      requests w @ [\<lparr>call_url = GRAPHQL_ENDPOINT, call_document = Str (query args),
                      call_variables = variables args\<rparr>]"
    using assms(1) by (simp add: query_graphql_def request_def split: sum.splits)
  have handler': "requests (snd (query_graphql_publicAPI up args context w)) =
      requests w @ [\<lparr>call_url = GRAPHQL_ENDPOINT, call_document = Str (query args),
                      call_variables = variables args\<rparr>]"
    using handler by (simp add: query_graphql_publicAPI_eq)
  have manual: "requests (snd (post_mcp_publicAPI up body w)) =
      requests w @ [\<lparr>call_url = GRAPHQL_ENDPOINT,
                      call_document = get_prop (Obj kvs) ''query'',
                      call_variables = get_prop (Obj kvs) ''variables''\<rparr>]"
    using assms(2,3)
    by (simp add: post_mcp_publicAPI_def request_def Let_def split: sum.splits
        del: get_prop.simps)
  from handler handler' manual show ?thesis by simp
qed

theorem query_graphql_forwards_verbatim_witness:
  "truthy (cachedSchema (snd (introspect_schema schema_upstream initial_world)))
   \<and> is_manual_query countries_request
   \<and> requests (snd (query_graphql no_countries countries_args
        (snd (introspect_schema schema_upstream initial_world)))) =
      [\<lparr>call_url = GRAPHQL_ENDPOINT, call_document = Str INTROSPECTION_QUERY,
        call_variables = Undefined\<rparr>,
       \<lparr>call_url = GRAPHQL_ENDPOINT,
        call_document = Str ''query { countries { name capital } }'',
        call_variables = Undefined\<rparr>]
   \<and> requests (snd (post_mcp_publicAPI no_countries countries_request
        (snd (introspect_schema schema_upstream initial_world)))) =
      [\<lparr>call_url = GRAPHQL_ENDPOINT, call_document = Str INTROSPECTION_QUERY,
        call_variables = Undefined\<rparr>,
       \<lparr>call_url = GRAPHQL_ENDPOINT,
        call_document = Str ''query { countries { name capital } }'',
        call_variables = Undefined\<rparr>]"
proof -
  let ?w = "snd (introspect_schema schema_upstream initial_world)"
  have cache: "cachedSchema ?w = tiny_schema"
    by (simp add: introspect_schema_def request_def schema_upstream_def)
  have ready: "truthy (cachedSchema ?w)"
    by (simp add: cache tiny_schema_def)
  have before: "requests ?w =
      [\<lparr>call_url = GRAPHQL_ENDPOINT, call_document = Str INTROSPECTION_QUERY,
        call_variables = Undefined\<rparr>]"
    by (simp add: introspect_schema_def request_def schema_upstream_def initial_world_def)
  have args: "get_prop (get_prop countries_request ''params'') ''arguments''
                = Obj [(''query'', Str ''query { countries { name capital } }'')]"
    by (simp add: countries_request_def)
  show ?thesis
    using ready before
      query_graphql_forwards_verbatim [OF ready manual_countries_request args,
        where up = no_countries and args = countries_args]
    by (simp add: manual_countries_request countries_args_def)
qed

text \<open>
  C9. A \<^verbatim>\<open>query-graphql\<close> call never changes the schema cache, the session registry or
  the session counter: not when the schema is missing, not when the upstream call succeeds,
  not when it fails; this holds for the registered handler of both files and for the
  hand-written branch. The session manager does not touch the schema cache either, which
  leaves \<^verbatim>\<open>introspect-schema\<close> as its only writer.
\<close>

theorem query_graphql_frame:
  "cachedSchema (snd (query_graphql up args w)) = cachedSchema w
   \<and> sessions (snd (query_graphql up args w)) = sessions w
   \<and> sessionCounter (snd (query_graphql up args w)) = sessionCounter w
   \<and> cachedSchema (snd (query_graphql_publicAPI up args context w)) = cachedSchema w
   \<and> sessions (snd (query_graphql_publicAPI up args context w)) = sessions w
   \<and> sessionCounter (snd (query_graphql_publicAPI up args context w)) = sessionCounter w
   \<and> cachedSchema (snd (post_mcp_publicAPI up body w)) = cachedSchema w
   \<and> sessions (snd (post_mcp_publicAPI up body w)) = sessions w
   \<and> sessionCounter (snd (post_mcp_publicAPI up body w)) = sessionCounter w
   \<and> cachedSchema (snd (generateSessionId w)) = cachedSchema w
   \<and> cachedSchema (snd (createSession sessionId now w)) = cachedSchema w
   \<and> cachedSchema (deleteSession sessionId w) = cachedSchema w"
proof -
  have h: "cachedSchema (snd (query_graphql up args w)) = cachedSchema w
      \<and> sessions (snd (query_graphql up args w)) = sessions w
      \<and> sessionCounter (snd (query_graphql up args w)) = sessionCounter w"
    by (simp add: query_graphql_def request_def split: sum.splits)
  have m: "cachedSchema (snd (post_mcp_publicAPI up body w)) = cachedSchema w
      \<and> sessions (snd (post_mcp_publicAPI up body w)) = sessions w
      \<and> sessionCounter (snd (post_mcp_publicAPI up body w)) = sessionCounter w"
    by (simp add: post_mcp_publicAPI_def request_def Let_def split: sum.splits
        del: get_prop.simps)
  have manager: "cachedSchema (snd (generateSessionId w)) = cachedSchema w
      \<and> cachedSchema (snd (createSession sessionId now w)) = cachedSchema w
      \<and> cachedSchema (deleteSession sessionId w) = cachedSchema w"
    by (simp add: generateSessionId_def createSession_def deleteSession_def Let_def)
  from h m manager show ?thesis
    by (simp add: query_graphql_publicAPI_eq)
qed

section \<open>Deleting a session\<close>

text \<open>
  C8. \<^verbatim>\<open>deleteSession\<close> is idempotent: deleting an identifier that the registry does not
  hold changes nothing (and, the function being total, raises nothing), and deleting the
  same identifier a second time gives the state the first deletion gave.
\<close>

theorem deleteSession_idempotent:
  "(sessions w sessionId = None \<longrightarrow> deleteSession sessionId w = w)
   \<and> deleteSession sessionId (deleteSession sessionId w) = deleteSession sessionId w"
  by (auto simp: deleteSession_def fun_upd_idem)

theorem deleteSession_idempotent_witness:
  "sessions (snd (createSession ''session-1'' 1700000000000 initial_world)) ''session-2'' = None
   \<and> deleteSession ''session-2'' (snd (createSession ''session-1'' 1700000000000 initial_world))
       = snd (createSession ''session-1'' 1700000000000 initial_world)
   \<and> deleteSession ''session-1''
        (deleteSession ''session-1'' (snd (createSession ''session-1'' 1700000000000 initial_world)))
       = deleteSession ''session-1'' (snd (createSession ''session-1'' 1700000000000 initial_world))
   \<and> getSession ''session-1''
        (deleteSession ''session-1'' (snd (createSession ''session-1'' 1700000000000 initial_world)))
       = None"
proof -
  let ?w = "snd (createSession ''session-1'' 1700000000000 initial_world)"
  have absent: "sessions ?w ''session-2'' = None"
    by (simp add: createSession_def initial_world_def Let_def)
  have gone: "getSession ''session-1'' (deleteSession ''session-1'' ?w) = None"
    by (simp add: getSession_def deleteSession_def)
  show ?thesis
    using absent gone
      deleteSession_idempotent [of ?w "''session-2''"]
      deleteSession_idempotent [of ?w "''session-1''"]
    by simp
qed

section \<open>The introspection document\<close>

text \<open>
  Every line of the document ends with a line break, which closes any name being read, so
  the document can be cut into tokens line by line.
\<close>

lemma tokens_from_line:
  "tokens_from acc (l @ CHR 0x0A # rest) = tokens_from acc l @ tokens_from [] rest"
  by (induction l arbitrary: acc) (simp_all add: is_name_char_def name_code_def is_blank_def)

lemma tokens_from_lines:
  "tokens_from [] (concat (map (\<lambda>l. l @ [CHR 0x0A]) ls)) = concat (map (tokens_from []) ls)"
  by (induction ls) (simp_all add: tokens_from_line)

lemma tokens_INTROSPECTION_QUERY:
  "tokens INTROSPECTION_QUERY = concat (map tokens INTROSPECTION_QUERY_lines)"
proof -
  have skip: "tokens_from [] (CHR 0x0A # xs) = tokens_from [] xs" for xs
    by (simp add: is_name_char_def name_code_def is_blank_def)
  have eq: "tokens = tokens_from []"
    by (rule ext) (simp add: tokens_def)
  show ?thesis
    by (simp only: eq INTROSPECTION_QUERY_def skip tokens_from_lines)
qed

lemma TypeRef_tokens:
  "fragment_tokens ''TypeRef'' INTROSPECTION_QUERY =
     [''on'', ''__Type'', ''{'', ''kind'', ''name'',
      ''ofType'', ''{'', ''kind'', ''name'',
      ''ofType'', ''{'', ''kind'', ''name'',
      ''ofType'', ''{'', ''kind'', ''name'',
      ''ofType'', ''{'', ''kind'', ''name'',
      ''ofType'', ''{'', ''kind'', ''name'',
      ''ofType'', ''{'', ''kind'', ''name'',
      ''}'', ''}'', ''}'', ''}'', ''}'', ''}'', ''}'']"
  unfolding fragment_tokens_def tokens_INTROSPECTION_QUERY
  by code_simp

lemma introspect_schema_document:
  "requests (snd (introspect_schema up w)) =
     requests w @ [\<lparr>call_url = GRAPHQL_ENDPOINT, call_document = Str INTROSPECTION_QUERY,
                     call_variables = Undefined\<rparr>]"
  by (simp add: introspect_schema_def request_def split: sum.splits)

text \<open>
  C3 as the claim has it: the \<^verbatim>\<open>TypeRef\<close> fragment of the document nests \<^verbatim>\<open>ofType\<close>
  exactly 7 levels deep. It does not.
\<close>

theorem ofType_levels_not_seven: "ofType_levels INTROSPECTION_QUERY \<noteq> 7"
  unfolding ofType_levels_def TypeRef_tokens by code_simp

text \<open>
  C3, amended. \<^verbatim>\<open>introspect-schema\<close> sends \<^verbatim>\<open>INTROSPECTION_QUERY\<close> and nothing else,
  and the \<^verbatim>\<open>TypeRef\<close> fragment of that document nests \<^verbatim>\<open>ofType\<close> exactly 6 levels deep:
  the field occurs 6 times, each inside the one before. Counting the fragment's own
  \<^verbatim>\<open>kind name\<close> selection, a type reference is described on 7 levels.
\<close>

theorem ofType_levels_six:
  "map call_document (requests (snd (introspect_schema up initial_world)))
     = [Str INTROSPECTION_QUERY]
   \<and> ofType_levels INTROSPECTION_QUERY = 6
   \<and> length (filter (\<lambda>t. t = ''ofType'') (fragment_tokens ''TypeRef'' INTROSPECTION_QUERY)) = 6
   \<and> length (filter (\<lambda>t. t = ''kind'') (fragment_tokens ''TypeRef'' INTROSPECTION_QUERY)) = 7"
proof -
  have sent: "map call_document (requests (snd (introspect_schema up initial_world)))
      = [Str INTROSPECTION_QUERY]"
    by (simp add: introspect_schema_document initial_world_def)
  have depth: "ofType_levels INTROSPECTION_QUERY = 6"
    unfolding ofType_levels_def TypeRef_tokens by code_simp
  have fields: "length (filter (\<lambda>t. t = ''ofType'')
      (fragment_tokens ''TypeRef'' INTROSPECTION_QUERY)) = 6"
    unfolding TypeRef_tokens by code_simp
  have levels: "length (filter (\<lambda>t. t = ''kind'')
      (fragment_tokens ''TypeRef'' INTROSPECTION_QUERY)) = 7"
    unfolding TypeRef_tokens by code_simp
  from sent depth fields levels show ?thesis by simp
qed

section \<open>The shape of the responses\<close>

lemma stringify_tiny_schema:
  \<open>JSON_stringify tiny_schema = Some ''{"__schema":{"types":[]}}''\<close>
  by code_simp

lemma stringify_data_tiny_schema:
  \<open>JSON_stringify (Obj [(''data'', tiny_schema)]) = Some ''{"data":{"__schema":{"types":[]}}}''\<close>
  by code_simp

lemma stringify_fetch_failed:
  \<open>JSON_stringify (Obj [(''error'', Str ''Failed to execute GraphQL query''),
                         (''details'', Str ''fetch failed'')])
   = Some ''{"error":"Failed to execute GraphQL query","details":"fetch failed"}''\<close>
  by code_simp

text \<open>
  C2 as the claim has it: every tool result is translated to the envelope of the
  specification, so a successful \<^verbatim>\<open>introspect-schema\<close> answers with the serialised
  \<^verbatim>\<open>{ data: schema }\<close>. The handler serialises the schema itself, with no \<^verbatim>\<open>data\<close>
  wrapper.
\<close>

theorem introspect_schema_not_data_shaped:
  \<open>content (fst (introspect_schema schema_upstream initial_world))
     = [\<lparr>block_type = ''text'', block_text = Some ''{"__schema":{"types":[]}}''\<rparr>]
   \<and> spec_envelope (Success tiny_schema)
     = [\<lparr>block_type = ''text'', block_text = Some ''{"data":{"__schema":{"types":[]}}}''\<rparr>]
   \<and> content (fst (introspect_schema schema_upstream initial_world))
     \<noteq> spec_envelope (Success tiny_schema)\<close>
proof -
  have code: \<open>content (fst (introspect_schema schema_upstream initial_world))
      = [\<lparr>block_type = ''text'', block_text = Some ''{"__schema":{"types":[]}}''\<rparr>]\<close>
    by (simp add: introspect_schema_def request_def schema_upstream_def stringify_tiny_schema
        del: JSON_stringify.simps)
  have spec: \<open>spec_envelope (Success tiny_schema)
      = [\<lparr>block_type = ''text'', block_text = Some ''{"data":{"__schema":{"types":[]}}}''\<rparr>]\<close>
    by (simp add: stringify_data_tiny_schema del: JSON_stringify.simps)
  from code spec show ?thesis by simp
qed

text \<open>
  C2, amended. Every tool result is one content block of type "text". Its text is the
  serialised JSON of
  \<^item> the schema itself, not wrapped, when \<^verbatim>\<open>introspect-schema\<close> succeeds;
  \<^item> \<^verbatim>\<open>{ data: result }\<close> when the registered \<^verbatim>\<open>query-graphql\<close> handler succeeds;
  \<^item> \<^verbatim>\<open>{ error: message, details: err.message }\<close> when the upstream call of either
    tool fails, also in the hand-written branch of \<^verbatim>\<open>mcpServer_publicAPI.js\<close>;
  \<^item> \<^verbatim>\<open>{ error: message }\<close>, with no details, when the schema is not available.

  The hand-written branch answers with one text block as well; what its text is on
  success is not part of the statement.
\<close>

theorem tool_results_envelope:
  "content (fst (introspect_schema up w)) =
     (case up GRAPHQL_ENDPOINT (Str INTROSPECTION_QUERY) Undefined of
        Inr schema \<Rightarrow> [\<lparr>block_type = ''text'', block_text = JSON_stringify schema\<rparr>]
      | Inl err \<Rightarrow> spec_envelope (Failure ''Failed to introspect schema'' (message err)))
   \<and> content (fst (query_graphql up args w)) =
     (if truthy (cachedSchema w)
      then (case up GRAPHQL_ENDPOINT (Str (query args)) (variables args) of
              Inr data \<Rightarrow> spec_envelope (Success data)
            | Inl err \<Rightarrow> spec_envelope (Failure ''Failed to execute GraphQL query'' (message err)))
      else [\<lparr>block_type = ''text'',
             block_text = JSON_stringify (Obj [(''error'',
               Str ''Schema not available. Please run introspect-schema first.'')])\<rparr>])
   \<and> content (fst (query_graphql_publicAPI up args context w))
       = content (fst (query_graphql up args w))
   \<and> (if is_manual_query body
      then (\<exists>r. fst (post_mcp_publicAPI up body w) = Responded r
              \<and> (\<exists>t. content (result r) = [\<lparr>block_type = ''text'', block_text = t\<rparr>])
              \<and> (case up GRAPHQL_ENDPOINT
                         (call_document (last (requests (snd (post_mcp_publicAPI up body w)))))
                         (call_variables (last (requests (snd (post_mcp_publicAPI up body w)))))
                  of Inl err \<Rightarrow> content (result r) =
                         spec_envelope (Failure ''Failed to execute GraphQL query'' (message err))
                   | Inr data \<Rightarrow> True))
      else fst (post_mcp_publicAPI up body w) = PassedToTransport)"
proof -
  have introspect: "content (fst (introspect_schema up w)) =
     (case up GRAPHQL_ENDPOINT (Str INTROSPECTION_QUERY) Undefined of
        Inr schema \<Rightarrow> [\<lparr>block_type = ''text'', block_text = JSON_stringify schema\<rparr>]
      | Inl err \<Rightarrow> spec_envelope (Failure ''Failed to introspect schema'' (message err)))"
    by (simp add: introspect_schema_def request_def split: sum.splits
        del: JSON_stringify.simps)
  have handler: "content (fst (query_graphql up args w)) =
     (if truthy (cachedSchema w)
      then (case up GRAPHQL_ENDPOINT (Str (query args)) (variables args) of
              Inr data \<Rightarrow> spec_envelope (Success data)
            | Inl err \<Rightarrow> spec_envelope (Failure ''Failed to execute GraphQL query'' (message err)))
      else [\<lparr>block_type = ''text'',
             block_text = JSON_stringify (Obj [(''error'',
               Str ''Schema not available. Please run introspect-schema first.'')])\<rparr>])"
    by (simp add: query_graphql_def request_def split: sum.splits del: JSON_stringify.simps)
  have manual: "if is_manual_query body
      then (\<exists>r. fst (post_mcp_publicAPI up body w) = Responded r
              \<and> (\<exists>t. content (result r) = [\<lparr>block_type = ''text'', block_text = t\<rparr>])
              \<and> (case up GRAPHQL_ENDPOINT
                         (call_document (last (requests (snd (post_mcp_publicAPI up body w)))))
                         (call_variables (last (requests (snd (post_mcp_publicAPI up body w)))))
                  of Inl err \<Rightarrow> content (result r) =
                         spec_envelope (Failure ''Failed to execute GraphQL query'' (message err))
                   | Inr data \<Rightarrow> True))
      else fst (post_mcp_publicAPI up body w) = PassedToTransport"
    by (simp add: post_mcp_publicAPI_def request_def Let_def split: sum.splits
        del: JSON_stringify.simps get_prop.simps)
  from introspect handler manual show ?thesis
    by (simp only: query_graphql_publicAPI_eq simp_thms)
qed

theorem tool_results_envelope_witness:
  \<open>is_manual_query countries_request
   \<and> fst (post_mcp_publicAPI unreachable countries_request initial_world) =
       Responded \<lparr>result = \<lparr>content = [\<lparr>block_type = ''text'', block_text =
         Some ''{"error":"Failed to execute GraphQL query","details":"fetch failed"}''\<rparr>]\<rparr>,
         jsonrpc = ''2.0'', response_id = Num 2\<rparr>
   \<and> content (fst (query_graphql unreachable countries_args
        (snd (introspect_schema schema_upstream initial_world)))) =
       [\<lparr>block_type = ''text'', block_text =
         Some ''{"error":"Failed to execute GraphQL query","details":"fetch failed"}''\<rparr>]
   \<and> content (fst (query_graphql no_countries countries_args initial_world)) =
       [\<lparr>block_type = ''text'', block_text =
         Some ''{"error":"Schema not available. Please run introspect-schema first."}''\<rparr>]\<close>
proof -
  let ?w = "snd (introspect_schema schema_upstream initial_world)"
  have ready: "truthy (cachedSchema ?w)"
    by (simp add: introspect_schema_def request_def schema_upstream_def tiny_schema_def)
  have empty: "\<not> truthy (cachedSchema initial_world)"
    by (simp add: initial_world_def)
  have ident: "get_prop countries_request ''id'' = Num 2"
    by (simp add: countries_request_def)
  have response: "\<exists>r. fst (post_mcp_publicAPI unreachable countries_request initial_world)
      = Responded r \<and> jsonrpc r = ''2.0'' \<and> response_id r = Num 2"
    by (simp add: post_mcp_publicAPI_def manual_countries_request request_def Let_def
        unreachable_def ident del: JSON_stringify.simps get_prop.simps)
  show ?thesis
    using ready empty response
      tool_results_envelope [where up = unreachable and args = countries_args and w = ?w
        and body = countries_request]
      tool_results_envelope [where up = no_countries and args = countries_args
        and w = initial_world and body = countries_request]
      tool_results_envelope [where up = unreachable and args = countries_args
        and w = initial_world and body = countries_request]
    by (auto simp add: manual_countries_request unreachable_def stringify_fetch_failed
        stringify_not_available simp del: JSON_stringify.simps get_prop.simps)
qed

section \<open>Session identifiers\<close>

subsection \<open>The decimal rendering is one-to-one\<close>

lemma digit_val_digit_char: "d < 10 \<Longrightarrow> digit_val (digit_char d) = d"
proof -
  assume "d < 10"
  then have "d \<in> {0, 1, 2, 3, 4, 5, 6, 7, 8, 9}"
    by auto
  then show ?thesis
    by (auto simp: digit_val_def digit_char_def)
qed

lemma nat_of_digits_snoc: "nat_of_digits (s @ [c]) = 10 * nat_of_digits s + digit_val c"
  by (simp add: nat_of_digits_def)

lemma nat_of_digits_nat_toString: "nat_of_digits (nat_toString n) = n"
proof (induction n rule: nat_toString.induct)
  case (1 n)
  show ?case
  proof (cases "n < 10")
    case True
    then show ?thesis
      by (subst nat_toString.simps) (simp add: nat_of_digits_def digit_val_digit_char)
  next
    case False
    with 1 have "nat_of_digits (nat_toString (n div 10)) = n div 10"
      by simp
    with False show ?thesis
      by (subst nat_toString.simps) (simp add: nat_of_digits_snoc digit_val_digit_char)
  qed
qed

lemma nat_toString_inject: "nat_toString a = nat_toString b \<Longrightarrow> a = b"
  by (metis nat_of_digits_nat_toString)

subsection \<open>The counter along a history\<close>

lemma increment_min: "c \<le> 2 ^ 53 \<Longrightarrow> increment c = min (c + 1) (2 ^ 53)"
  by (simp add: increment_def)

lemma generated_Nil: "generated [] w = []"
  by (simp add: generated_def)

lemma generated_Cons:
  "generated (op # ops) w = fst (apply_op op w) @ generated ops (snd (apply_op op w))"
  by (simp add: generated_def split: prod.splits)

lemma apply_op_cases:
  "(fst (apply_op op w) = []
      \<and> sessionCounter (snd (apply_op op w)) = sessionCounter w)
   \<or> (fst (apply_op op w) = [''session-'' @ nat_toString (increment (sessionCounter w))]
      \<and> sessionCounter (snd (apply_op op w)) = increment (sessionCounter w))"
  by (cases op)
     (simp_all add: generateSessionId_def createSession_def deleteSession_def Let_def)

lemma generated_nth:
  "sessionCounter w \<le> 2 ^ 53 \<Longrightarrow> j < length (generated ops w) \<Longrightarrow>
     generated ops w ! j = ''session-'' @ nat_toString (min (sessionCounter w + Suc j) (2 ^ 53))"
proof (induction ops arbitrary: w j)
  case Nil
  then show ?case by (simp add: generated_Nil)
next
  case (Cons op ops)
  let ?w1 = "snd (apply_op op w)"
  from apply_op_cases [of op w] show ?case
  proof (elim disjE conjE)
    assume none: "fst (apply_op op w) = []"
      and same: "sessionCounter ?w1 = sessionCounter w"
    from Cons.prems none have "j < length (generated ops ?w1)"
      by (simp add: generated_Cons)
    with Cons.IH [of ?w1 j] Cons.prems(1) same none show ?thesis
      by (simp add: generated_Cons)
  next
    assume one: "fst (apply_op op w)
        = [''session-'' @ nat_toString (increment (sessionCounter w))]"
      and next_counter: "sessionCounter ?w1 = increment (sessionCounter w)"
    have bound: "sessionCounter ?w1 \<le> 2 ^ 53"
      using Cons.prems(1) next_counter by (simp add: increment_def)
    show ?thesis
    proof (cases j)
      case 0
      with one Cons.prems(1) show ?thesis
        by (simp add: generated_Cons increment_min)
    next
      case (Suc i)
      with Cons.prems one have "i < length (generated ops ?w1)"
        by (simp add: generated_Cons)
      from Cons.IH [OF bound this] Suc one next_counter Cons.prems(1) show ?thesis
        by (simp add: generated_Cons increment_min min_def)
    qed
  qed
qed

lemma generated_replicate_length: "length (generated (replicate n GenerateId) w) = n"
  by (induction n arbitrary: w)
     (simp_all add: generated_Nil generated_Cons generateSessionId_def Let_def)

lemma generated_initial_nth:
  assumes "j < length (generated ops initial_world)"
  shows "generated ops initial_world ! j = ''session-'' @ nat_toString (min (Suc j) (2 ^ 53))"
  using generated_nth [of initial_world j ops] assms by (simp add: initial_world_def)

lemma sample_history_generated:
  "generated sample_history initial_world = [''session-1'', ''session-2'', ''session-3'']"
  by (simp add: sample_history_def generated_def initial_world_def generateSessionId_def
      createSession_def deleteSession_def increment_def Let_def nat_toString.simps
      digit_char_def)

lemma replicate_generated_nth:
  assumes "j < n"
  shows "generated (replicate n GenerateId) initial_world ! j
           = ''session-'' @ nat_toString (min (Suc j) (2 ^ 53))"
  using generated_initial_nth [of j "replicate n GenerateId"] assms
  by (simp add: generated_replicate_length)

lemma nat_toString_limit: "nat_toString (2 ^ 53) = ''9007199254740992''"
  by (simp add: nat_toString.simps digit_char_def)

lemma replicate_generated_limit:
  assumes "2 ^ 53 < n"
  shows "generated (replicate n GenerateId) initial_world ! (2 ^ 53 - 1)
           = ''session-9007199254740992''"
    and "generated (replicate n GenerateId) initial_world ! (2 ^ 53)
           = ''session-9007199254740992''"
proof -
  have "generated (replicate n GenerateId) initial_world ! (2 ^ 53 - 1)
      = ''session-'' @ nat_toString (2 ^ 53)"
    using replicate_generated_nth [of "2 ^ 53 - 1" n] assms by simp
  then show "generated (replicate n GenerateId) initial_world ! (2 ^ 53 - 1)
      = ''session-9007199254740992''"
    by (simp only: nat_toString_limit) simp
  have "generated (replicate n GenerateId) initial_world ! (2 ^ 53)
      = ''session-'' @ nat_toString (2 ^ 53)"
    using replicate_generated_nth [of "2 ^ 53" n] assms by simp
  then show "generated (replicate n GenerateId) initial_world ! (2 ^ 53)
      = ''session-9007199254740992''"
    by (simp only: nat_toString_limit) simp
qed

lemma replicate_generated_differs:
  assumes "2 ^ 53 < n"
  shows "generated (replicate n GenerateId) initial_world ! (2 ^ 53)
           \<noteq> ''session-'' @ nat_toString (2 ^ 53 + 1)"
proof -
  have "nat_toString (2 ^ 53) \<noteq> nat_toString (2 ^ 53 + 1)"
    using nat_toString_inject [of "2 ^ 53" "2 ^ 53 + 1"] by auto
  moreover have "generated (replicate n GenerateId) initial_world ! (2 ^ 53)
      = ''session-'' @ nat_toString (2 ^ 53)"
    using replicate_generated_nth [of "2 ^ 53" n] assms by simp
  ultimately show ?thesis
    by simp
qed

lemma replicate_generated_repeat:
  assumes "2 ^ 53 < n"
  shows "\<not> distinct (generated (replicate n GenerateId) initial_world)"
proof
  let ?ids = "generated (replicate n GenerateId) initial_world"
  assume d: "distinct ?ids"
  have i: "(2 ^ 53 - 1 :: nat) < length ?ids" and j: "(2 ^ 53 :: nat) < length ?ids"
    using assms by (simp_all add: generated_replicate_length)
  have "?ids ! (2 ^ 53 - 1) = ?ids ! (2 ^ 53)"
    by (simp only: replicate_generated_limit [OF assms])
  with nth_eq_iff_index_eq [OF d i j] have "(2 ^ 53 - 1 :: nat) = 2 ^ 53"
    by blast
  then show False by simp
qed

subsection \<open>The \<open>k\<close>-th identifier\<close>

text \<open>
  C10 as the claim has it: for every \<open>k \<ge> 1\<close> the \<open>k\<close>-th identifier drawn in a process
  is "session-" followed by the decimal numeral of \<open>k\<close>. The counter is a double: once it is
  \<open>2 ^ 53 = 9007199254740992\<close>, adding one leaves it there, and the identifier number
  \<open>2 ^ 53 + 1\<close> is "session-9007199254740992" again.
\<close>

theorem session_id_saturates:
  "generated (replicate (2 ^ 53 + 1) GenerateId) initial_world ! (2 ^ 53)
     = ''session-9007199254740992''
   \<and> generated (replicate (2 ^ 53 + 1) GenerateId) initial_world ! (2 ^ 53)
     \<noteq> ''session-'' @ nat_toString (2 ^ 53 + 1)"
proof (rule conjI)
  have many: "(2 ^ 53 :: nat) < 2 ^ 53 + 1"
    by simp
  show "generated (replicate (2 ^ 53 + 1) GenerateId) initial_world ! (2 ^ 53)
      = ''session-9007199254740992''"
    by (rule replicate_generated_limit(2) [OF many])
  show "generated (replicate (2 ^ 53 + 1) GenerateId) initial_world ! (2 ^ 53)
      \<noteq> ''session-'' @ nat_toString (2 ^ 53 + 1)"
    by (rule replicate_generated_differs [OF many])
qed

text \<open>
  C10, amended. For every \<open>k\<close> from 1 to \<open>2 ^ 53\<close>, the \<open>k\<close>-th identifier drawn in a
  process, whatever else the session manager is asked in between, is "session-" followed
  by the decimal numeral of \<open>k\<close> (the numeral that reads back as \<open>k\<close>).
\<close>

theorem kth_session_id:
  assumes "1 \<le> k" and "k \<le> 2 ^ 53" and "k \<le> length (generated ops initial_world)"
  shows "generated ops initial_world ! (k - 1) = ''session-'' @ nat_toString k
         \<and> nat_of_digits (nat_toString k) = k"
proof -
  from assms have "k - 1 < length (generated ops initial_world)"
    by simp
  from generated_initial_nth [OF this] assms(1,2)
  show ?thesis
    by (simp add: nat_of_digits_nat_toString)
qed

theorem kth_session_id_witness:
  "(1::nat) \<le> 2 \<and> (2::nat) \<le> 2 ^ 53 \<and> 2 \<le> length (generated sample_history initial_world)
   \<and> generated sample_history initial_world ! (2 - 1) = ''session-2''
   \<and> nat_toString 2 = ''2''"
proof -
  have len: "2 \<le> length (generated sample_history initial_world)"
    by (simp add: sample_history_generated)
  have numeral: "nat_toString 2 = ''2''"
    by (simp add: nat_toString.simps digit_char_def)
  show ?thesis
    using len numeral kth_session_id [of 2 sample_history]
    by simp
qed

subsection \<open>Identifiers are not reused\<close>

text \<open>
  C7 as the claim has it: the identifiers drawn by any number \<open>N\<close> of session creations in
  one process are pairwise distinct. With \<open>2 ^ 53 + 1\<close> creations the last two identifiers
  are the same, because the counter stops at \<open>2 ^ 53\<close>.
\<close>

theorem session_ids_repeat:
  "\<not> distinct (generated (replicate (2 ^ 53 + 1) GenerateId) initial_world)"
proof -
  have many: "(2 ^ 53 :: nat) < 2 ^ 53 + 1"
    by simp
  show ?thesis
    by (rule replicate_generated_repeat [OF many])
qed

text \<open>
  C7, amended. The identifiers drawn in one process are pairwise distinct as long as at
  most \<open>2 ^ 53\<close> are drawn, whatever sessions are created, looked up or deleted in between:
  an identifier is not drawn again after its session was deleted.
\<close>

theorem session_ids_distinct:
  assumes "length (generated ops initial_world) \<le> 2 ^ 53"
  shows "distinct (generated ops initial_world)"
proof -
  let ?ids = "generated ops initial_world"
  have "i = j" if "i < length ?ids" "j < length ?ids" "?ids ! i = ?ids ! j" for i j
  proof -
    from that(1,2) assms have "Suc i \<le> 2 ^ 53" "Suc j \<le> 2 ^ 53"
      by simp_all
    with generated_initial_nth [OF that(1)] generated_initial_nth [OF that(2)] that(3)
    have "nat_toString (Suc i) = nat_toString (Suc j)"
      by (simp add: min_def)
    then show ?thesis
      by (auto dest: nat_toString_inject)
  qed
  then show ?thesis
    by (auto simp: distinct_conv_nth)
qed

theorem session_ids_distinct_witness:
  "length (generated sample_history initial_world) \<le> 2 ^ 53
   \<and> generated sample_history initial_world = [''session-1'', ''session-2'', ''session-3'']
   \<and> distinct (generated sample_history initial_world)"
proof -
  have few: "length (generated sample_history initial_world) \<le> 2 ^ 53"
    by (simp add: sample_history_generated)
  show ?thesis
    using few session_ids_distinct [of sample_history]
    by (simp add: sample_history_generated)
qed

end
